theory Spec2Isabelle
  imports Complex_Main
begin

section \<open>The crop scorer of the recommendation page\<close>

text \<open>
  The development embeds \<^verbatim>\<open>computeRecommendations\<close> (the closure of
  \<^verbatim>\<open>CropRecApp\<close>, lines 128 to 167 of the component file) with its two local
  functions \<^verbatim>\<open>prefBonus\<close> and \<^verbatim>\<open>scoreCrop\<close>.

  JavaScript numbers are modelled as exact reals: the arithmetic of the source is kept
  operation by operation, the rounding error of IEEE doubles is not modelled.
  \<^verbatim>\<open>Math.round\<close> is exact in JavaScript (the nearest integer, a tie going towards
  plus infinity), which is \<open>\<lfloor>x + 1/2\<rfloor>\<close>. Strings are byte strings.

  The properties proved below are bounds, orders and differences of the score and the
  yields. Which tenth a yield is rounded to when the product falls on a tie depends on
  the last bit of the doubles, and is outside this model.
\<close>

subsection \<open>Data model\<close>

text \<open>
  The \<^verbatim>\<open>ideal\<close> object of a crop. Its fields \<^verbatim>\<open>ph\<close>, \<^verbatim>\<open>temp\<close> and
  \<^verbatim>\<open>rainfall\<close> are two-element arrays read at index 0 and 1 only: they are pairs
  here. They carry the prefix \<open>ideal\<close> because \<open>ph\<close> and \<open>rainfall\<close> are also
  fields of the form inputs.
\<close>

record Ideal =
  idealPh :: "real \<times> real"
  idealTemp :: "real \<times> real"
  idealRainfall :: "real \<times> real"
  seasons :: "string list"

record Crop =
  name :: string
  ideal :: Ideal
  baseYield :: real
  fertilizer :: string
  water :: string

text \<open>
  The \<^verbatim>\<open>inputs\<close> state of the component, which \<^verbatim>\<open>handleRecommend\<close> passes
  whole to \<^verbatim>\<open>computeRecommendations\<close>. The function destructures seven of the
  ten fields.
\<close>

record Inputs =
  location :: string
  area :: real
  soilType :: string
  ph :: real
  soilMoisture :: real
  temperature :: real
  rainfall :: real
  irrigation :: string
  season :: string
  preference :: string

text \<open>
  What \<^verbatim>\<open>scoreCrop\<close> returns: the crop's own fields (the spread
  \<^verbatim>\<open>...crop\<close>) and the three computed ones.
\<close>

record RankedCrop = Crop +
  score :: real
  expectedYield :: real
  expectedYieldValue :: real

subsection \<open>Library functions of the host language\<close>

definition Math_round :: "real \<Rightarrow> real" where
  "Math_round x = of_int \<lfloor>x + 1 / 2\<rfloor>"

text \<open>
  \<^verbatim>\<open>String.prototype.toLowerCase\<close> on the letters A to Z; every other byte is
  kept.
\<close>

definition lowerChar :: "char \<Rightarrow> char" where
  "lowerChar c =
     (case map_of (zip ''ABCDEFGHIJKLMNOPQRSTUVWXYZ'' ''abcdefghijklmnopqrstuvwxyz'') c of
        Some d \<Rightarrow> d
      | None \<Rightarrow> c)"

definition toLowerCase :: "string \<Rightarrow> string" where
  "toLowerCase s = map lowerChar s"

text \<open>\<^verbatim>\<open>String.prototype.includes\<close>: the argument occurs as a contiguous substring.\<close>

fun includesStr :: "string \<Rightarrow> string \<Rightarrow> bool" where
  "includesStr [] sub = (sub = [])"
| "includesStr (c # cs) sub = (take (length sub) (c # cs) = sub \<or> includesStr cs sub)"

text \<open>
  \<^verbatim>\<open>Array.prototype.sort\<close> with a comparator: \<open>a\<close> comes before \<open>b\<close> when
  \<open>cmp a b < 0\<close>, and elements that compare equal keep their order (the sort is
  stable). It is modelled by insertion from the right: the element inserted stood before
  all the elements of the list it is inserted into, and it is put before the first one
  it does not have to follow.
\<close>

fun insertBy :: "('a \<Rightarrow> 'a \<Rightarrow> real) \<Rightarrow> 'a \<Rightarrow> 'a list \<Rightarrow> 'a list" where
  "insertBy cmp x [] = [x]"
| "insertBy cmp x (y # ys) =
     (if cmp x y \<le> 0 then x # y # ys else y # insertBy cmp x ys)"

fun sortBy :: "('a \<Rightarrow> 'a \<Rightarrow> real) \<Rightarrow> 'a list \<Rightarrow> 'a list" where
  "sortBy cmp [] = []"
| "sortBy cmp (x # xs) = insertBy cmp x (sortBy cmp xs)"

subsection \<open>The reference table\<close>

text \<open>
  The six entries of \<^verbatim>\<open>cropBank\<close>, each under the name of its crop, and the
  table in the order of the source.
\<close>

definition wheat :: Crop where
  "wheat =
     \<lparr>name = ''Wheat'',
      ideal = \<lparr>idealPh = (6.0, 7.5), idealTemp = (10, 25), idealRainfall = (300, 900),
               seasons = [''Rabi'']\<rparr>,
      baseYield = 3.0, fertilizer = ''NPK 20-20-0'', water = ''Medium''\<rparr>"

definition rice :: Crop where
  "rice =
     \<lparr>name = ''Rice'',
      ideal = \<lparr>idealPh = (5.5, 7.0), idealTemp = (20, 35), idealRainfall = (1000, 2000),
               seasons = [''Kharif'']\<rparr>,
      baseYield = 4.0, fertilizer = ''NPK 16-16-8'', water = ''High''\<rparr>"

definition maize :: Crop where
  "maize =
     \<lparr>name = ''Maize'',
      ideal = \<lparr>idealPh = (5.5, 7.5), idealTemp = (18, 32), idealRainfall = (500, 1200),
               seasons = [''Kharif'', ''Rabi'']\<rparr>,
      baseYield = 5.5, fertilizer = ''NPK 18-46-0'', water = ''Medium''\<rparr>"

definition cotton :: Crop where
  "cotton =
     \<lparr>name = ''Cotton'',
      ideal = \<lparr>idealPh = (5.5, 7.5), idealTemp = (20, 35), idealRainfall = (500, 1500),
               seasons = [''Kharif'']\<rparr>,
      baseYield = 2.2, fertilizer = ''NPK 10-26-26'', water = ''Medium''\<rparr>"

definition mustard :: Crop where
  "mustard =
     \<lparr>name = ''Mustard'',
      ideal = \<lparr>idealPh = (6.0, 7.5), idealTemp = (5, 25), idealRainfall = (200, 600),
               seasons = [''Rabi'']\<rparr>,
      baseYield = 1.1, fertilizer = ''NPK 15-15-15'', water = ''Low''\<rparr>"

definition pulses :: Crop where
  "pulses =
     \<lparr>name = ''Pulses'',
      ideal = \<lparr>idealPh = (6.0, 7.5), idealTemp = (15, 30), idealRainfall = (400, 800),
               seasons = [''Rabi'', ''Kharif'']\<rparr>,
      baseYield = 1.4, fertilizer = ''DAP + Urea (split)'', water = ''Low''\<rparr>"

definition cropBank :: "Crop list" where
  "cropBank = [wheat, rice, maize, cotton, mustard, pulses]"

subsection \<open>Scoring\<close>

text \<open>\<^verbatim>\<open>prefBonus\<close> reads \<^verbatim>\<open>preference\<close> from the enclosing call.\<close>

definition prefBonus :: "Inputs \<Rightarrow> Crop \<Rightarrow> real" where
  "prefBonus inp crop =
     (if preference inp = ''Low water'' \<and> water crop = ''Low'' then 0.08
      else if preference inp = ''High yield'' \<and> baseYield crop \<ge> 3.5 then 0.06
      else if preference inp = ''Short duration'' \<and> name crop \<in> set [''Pulses'', ''Maize''] then 0.06
      else if preference inp = ''Market demand'' \<and> name crop \<in> set [''Rice'', ''Wheat'', ''Cotton''] then 0.04
      else 0)"

text \<open>
  The six statements of \<^verbatim>\<open>scoreCrop\<close> that add to the local \<^verbatim>\<open>score\<close>, one
  definition for the amount each adds.
\<close>

definition phTerm :: "Inputs \<Rightarrow> Crop \<Rightarrow> real" where
  "phTerm inp crop =
     (let phRange = idealPh (ideal crop) in
      if ph inp \<ge> fst phRange \<and> ph inp \<le> snd phRange then 0.28
      else max 0 (0.28 - \<bar>((fst phRange + snd phRange) / 2) - ph inp\<bar> / 10))"

definition tempTerm :: "Inputs \<Rightarrow> Crop \<Rightarrow> real" where
  "tempTerm inp crop =
     (let tRange = idealTemp (ideal crop) in
      if temperature inp \<ge> fst tRange \<and> temperature inp \<le> snd tRange then 0.24
      else max 0 (0.24 - \<bar>((fst tRange + snd tRange) / 2) - temperature inp\<bar> / 50))"

definition rainTerm :: "Inputs \<Rightarrow> Crop \<Rightarrow> real" where
  "rainTerm inp crop =
     (let rRange = idealRainfall (ideal crop) in
      if rainfall inp \<ge> fst rRange \<and> rainfall inp \<le> snd rRange then 0.24
      else max 0 (0.24 - \<bar>((fst rRange + snd rRange) / 2) - rainfall inp\<bar> / 2000))"

definition seasonTerm :: "Inputs \<Rightarrow> Crop \<Rightarrow> real" where
  "seasonTerm inp crop = (if season inp \<in> set (seasons (ideal crop)) then 0.16 else 0)"

definition soilTerm :: "Inputs \<Rightarrow> real" where
  "soilTerm inp = (if includesStr (toLowerCase (soilType inp)) ''loam'' then 0.05 else 0)"

text \<open>The value of the local \<^verbatim>\<open>score\<close> when the yields are computed (line 161).\<close>

definition rawScore :: "Inputs \<Rightarrow> Crop \<Rightarrow> real" where
  "rawScore inp crop =
     0 + phTerm inp crop + tempTerm inp crop + rainTerm inp crop
       + seasonTerm inp crop + soilTerm inp + prefBonus inp crop"

definition scoreCrop :: "Inputs \<Rightarrow> Crop \<Rightarrow> RankedCrop" where
  "scoreCrop inp crop =
     (let score = rawScore inp crop;
          expectedYieldPerHa = Math_round ((baseYield crop * (1 + score * 0.4)) * 10) / 10;
          expectedYield = Math_round (expectedYieldPerHa * area inp * 10) / 10
      in \<lparr>name = name crop, ideal = ideal crop, baseYield = baseYield crop,
          fertilizer = fertilizer crop, water = water crop,
          score = min 1 score, expectedYield = expectedYield,
          expectedYieldValue = expectedYieldPerHa\<rparr>)"

text \<open>
  The last line of \<^verbatim>\<open>computeRecommendations\<close>, with the table as a parameter;
  the function itself runs it on \<open>cropBank\<close>.
\<close>

definition rankCrops :: "Crop list \<Rightarrow> Inputs \<Rightarrow> RankedCrop list" where
  "rankCrops bank inp =
     take 3 (sortBy (\<lambda>a b. score b - score a) (map (scoreCrop inp) bank))"

definition computeRecommendations :: "Inputs \<Rightarrow> RankedCrop list" where
  "computeRecommendations inp = rankCrops cropBank inp"

text \<open>The initial value of the form (lines 50 to 61).\<close>

definition initialInputs :: Inputs where
  "initialInputs =
     \<lparr>location = ''Agra, IN'', area = 1.0, soilType = ''Loam'', ph = 6.5,
      soilMoisture = 30, temperature = 26, rainfall = 300, irrigation = ''Canal'',
      season = ''Kharif'', preference = ''High yield''\<rparr>"

subsection \<open>Notions used to state the properties\<close>

text \<open>The position of a crop, found by its name, in the reference table.\<close>

definition tablePos :: "string \<Rightarrow> nat" where
  "tablePos n = length (takeWhile (\<lambda>c. name c \<noteq> n) cropBank)"

text \<open>
  The order a stable descending sort produces: a higher key first, and for equal keys
  the earlier position first.
\<close>

definition precedes :: "('a \<Rightarrow> real) \<Rightarrow> ('a \<Rightarrow> nat) \<Rightarrow> 'a \<Rightarrow> 'a \<Rightarrow> bool" where
  "precedes k p a b = (k a > k b \<or> (k a = k b \<and> p a < p b))"

text \<open>
  The preference bonus as the specification words it: four rules, each a preference, a
  condition on the crop and a bonus, tried in this order; the first rule that matches
  gives the bonus, and no match gives 0.
\<close>

definition prefRules :: "(string \<times> (Crop \<Rightarrow> bool) \<times> real) list" where
  "prefRules =
     [(''Low water'', \<lambda>c. water c = ''Low'', 0.08),
      (''High yield'', \<lambda>c. baseYield c \<ge> 3.5, 0.06),
      (''Short duration'', \<lambda>c. name c \<in> {''Pulses'', ''Maize''}, 0.06),
      (''Market demand'', \<lambda>c. name c \<in> {''Rice'', ''Wheat'', ''Cotton''}, 0.04)]"

definition prefBonus_spec :: "string \<Rightarrow> Crop \<Rightarrow> real" where
  "prefBonus_spec p c =
     (case find (\<lambda>(q, cond, b). p = q \<and> cond c) prefRules of
        Some (q, cond, b) \<Rightarrow> b
      | None \<Rightarrow> 0)"

text \<open>
  Rounding to one decimal place as the specification words it: the nearest multiple of
  one tenth (\<open>round\<close> is the nearest integer of the library).
\<close>

definition round1 :: "real \<Rightarrow> real" where
  "round1 x = of_int (round (x * 10)) / 10"

text \<open>
  What an entry of the result shows apart from the total yield: the crop, the score and
  the yield per hectare.
\<close>

definition facts :: "RankedCrop \<Rightarrow> string \<times> real \<times> real" where
  "facts r = (name r, score r, expectedYieldValue r)"

text \<open>The initial form with 600 mm of rain: every criterion of maize is met.\<close>

definition maizeInputs :: Inputs where
  "maizeInputs = initialInputs\<lparr>rainfall := 600\<rparr>"

section \<open>Properties of the host-language functions\<close>

lemma set_insertBy: "set (insertBy cmp x xs) = insert x (set xs)"
  by (induction xs) auto

lemma set_sortBy: "set (sortBy cmp xs) = set xs"
  by (induction xs) (simp_all add: set_insertBy)

lemma length_insertBy: "length (insertBy cmp x xs) = Suc (length xs)"
  by (induction xs) simp_all

lemma length_sortBy: "length (sortBy cmp xs) = length xs"
  by (induction xs) (simp_all add: length_insertBy)

text \<open>Sorting commutes with a map that leaves the comparisons as they are.\<close>

lemma map_insertBy:
  assumes "\<And>a b. cmp' (f a) (f b) = cmp a b"
  shows "map f (insertBy cmp x xs) = insertBy cmp' (f x) (map f xs)"
  by (induction xs) (simp_all add: assms)

lemma map_sortBy:
  assumes "\<And>a b. cmp' (f a) (f b) = cmp a b"
  shows "map f (sortBy cmp xs) = sortBy cmp' (map f xs)"
proof (induction xs)
  case Nil
  show ?case by simp
next
  case (Cons x xs)
  have "map f (sortBy cmp (x # xs)) = insertBy cmp' (f x) (map f (sortBy cmp xs))"
    using map_insertBy [of cmp' f cmp, OF assms] by simp
  with Cons show ?case by simp
qed

text \<open>
  Inserting an element that stood before every element of a list already in the order
  \<open>precedes\<close> keeps that order: the element stops in front of the first one whose
  key is not larger, and all later keys are not larger either.
\<close>

lemma precedes_insertBy:
  assumes "sorted_wrt (precedes k p) ys" and "\<forall>y\<in>set ys. p x < p y"
  shows "sorted_wrt (precedes k p) (insertBy (\<lambda>a b. k b - k a) x ys)"
  using assms
proof (induction ys)
  case Nil
  show ?case by simp
next
  case (Cons y ys)
  show ?case
  proof (cases "k y - k x \<le> 0")
    case True
    have "precedes k p x y"
      using True Cons.prems(2) by (auto simp: precedes_def)
    moreover have "\<forall>z\<in>set ys. precedes k p x z"
    proof
      fix z assume z: "z \<in> set ys"
      then have "precedes k p y z" using Cons.prems(1) by simp
      then have "k z \<le> k y" by (auto simp: precedes_def)
      then show "precedes k p x z"
        using True Cons.prems(2) z by (auto simp: precedes_def)
    qed
    ultimately show ?thesis using True Cons.prems(1) by simp
  next
    case False
    then have "precedes k p y x" by (simp add: precedes_def)
    moreover have "sorted_wrt (precedes k p) (insertBy (\<lambda>a b. k b - k a) x ys)"
      using Cons by simp
    ultimately show ?thesis
      using False Cons.prems(1) by (auto simp: set_insertBy)
  qed
qed

lemma precedes_sortBy:
  assumes "sorted_wrt (\<lambda>a b. p a < p b) xs"
  shows "sorted_wrt (precedes k p) (sortBy (\<lambda>a b. k b - k a) xs)"
  using assms
proof (induction xs)
  case Nil
  show ?case by simp
next
  case (Cons x xs)
  then have "sorted_wrt (precedes k p) (sortBy (\<lambda>a b. k b - k a) xs)" by simp
  moreover have "\<forall>y\<in>set (sortBy (\<lambda>a b. k b - k a) xs). p x < p y"
    using Cons.prems by (simp add: set_sortBy)
  ultimately show ?case by (simp add: precedes_insertBy)
qed

lemma Math_round_mono: "x \<le> y \<Longrightarrow> Math_round x \<le> Math_round y"
  by (simp add: Math_round_def floor_mono)

lemma round1_Math_round: "round1 x = Math_round (x * 10) / 10"
  by (simp add: round1_def Math_round_def round_def)

lemma round1_mono: "x \<le> y \<Longrightarrow> round1 x \<le> round1 y"
  by (simp add: round1_Math_round Math_round_mono divide_right_mono)

text \<open>\<open>round1\<close> is within half a tenth of its argument.\<close>

lemma round1_nearest: "\<bar>round1 x - x\<bar> \<le> 0.05"
proof -
  have "\<bar>of_int (round (x * 10)) - x * 10\<bar> \<le> 1 / 2"
    by (rule of_int_round_abs_le)
  then have "\<bar>(of_int (round (x * 10)) - x * 10) / 10\<bar> \<le> (1 / 2) / 10"
    by (simp del: of_int_diff)
  then show ?thesis
    by (simp add: round1_def diff_divide_distrib)
qed

section \<open>The terms of the score\<close>

lemmas term_defs = phTerm_def tempTerm_def rainTerm_def seasonTerm_def prefBonus_def Let_def

lemmas crop_defs = wheat_def rice_def maize_def cotton_def mustard_def pulses_def

lemma decay_bounds:
  fixes w d m v :: real
  assumes "0 \<le> w" and "0 < d"
  shows "0 \<le> max 0 (w - \<bar>m - v\<bar> / d) \<and> max 0 (w - \<bar>m - v\<bar> / d) \<le> w"
proof -
  have "0 \<le> \<bar>m - v\<bar> / d" using assms(2) by simp
  then show ?thesis using assms(1) by (simp add: max_def)
qed

lemma phTerm_bounds: "0 \<le> phTerm inp crop \<and> phTerm inp crop \<le> 0.28"
  using decay_bounds [of "0.28" 10] by (simp add: phTerm_def Let_def)

lemma tempTerm_bounds: "0 \<le> tempTerm inp crop \<and> tempTerm inp crop \<le> 0.24"
  using decay_bounds [of "0.24" 50] by (simp add: tempTerm_def Let_def)

lemma rainTerm_bounds: "0 \<le> rainTerm inp crop \<and> rainTerm inp crop \<le> 0.24"
  using decay_bounds [of "0.24" 2000] by (simp add: rainTerm_def Let_def)

lemma seasonTerm_bounds: "0 \<le> seasonTerm inp crop \<and> seasonTerm inp crop \<le> 0.16"
  by (simp add: seasonTerm_def)

lemma soilTerm_bounds: "0 \<le> soilTerm inp \<and> soilTerm inp \<le> 0.05"
  by (simp add: soilTerm_def)

lemma prefBonus_bounds: "0 \<le> prefBonus inp crop \<and> prefBonus inp crop \<le> 0.08"
  by (simp add: prefBonus_def)

text \<open>The raw score is never negative and never above 1.05.\<close>

lemma rawScore_bounds: "0 \<le> rawScore inp crop \<and> rawScore inp crop \<le> 1.05"
  using phTerm_bounds [of inp crop] tempTerm_bounds [of inp crop] rainTerm_bounds [of inp crop]
    seasonTerm_bounds [of inp crop] soilTerm_bounds [of inp] prefBonus_bounds [of inp crop]
  by (simp add: rawScore_def)

lemma name_scoreCrop: "name (scoreCrop inp crop) = name crop"
  by (simp add: scoreCrop_def Let_def)

lemma score_scoreCrop: "score (scoreCrop inp crop) = min 1 (rawScore inp crop)"
  by (simp add: scoreCrop_def Let_def)

lemma yph_scoreCrop:
  "expectedYieldValue (scoreCrop inp crop) = round1 (baseYield crop * (1 + rawScore inp crop * 0.4))"
  by (simp add: scoreCrop_def Let_def round1_Math_round)

lemma scoreCrop_unit: "0 \<le> score (scoreCrop inp crop) \<and> score (scoreCrop inp crop) \<le> 1"
  using rawScore_bounds [of inp crop] by (simp add: score_scoreCrop)

lemma set_rankCrops: "set (rankCrops bank inp) \<subseteq> scoreCrop inp ` set bank"
proof -
  have "set (rankCrops bank inp)
      \<subseteq> set (sortBy (\<lambda>a b. score b - score a) (map (scoreCrop inp) bank))"
    unfolding rankCrops_def by (rule set_take_subset)
  then show ?thesis by (simp add: set_sortBy)
qed

lemma phTerm_unfold:
  "phTerm inp crop =
     (if fst (idealPh (ideal crop)) \<le> ph inp \<and> ph inp \<le> snd (idealPh (ideal crop)) then 0.28
      else max 0 (0.28 - \<bar>(fst (idealPh (ideal crop)) + snd (idealPh (ideal crop))) / 2 - ph inp\<bar> / 10))"
  by (simp add: phTerm_def Let_def)

text \<open>What the score holds besides the pH term does not depend on the pH.\<close>

lemma rest_without_ph:
  "rawScore (inp\<lparr>ph := p\<rparr>) crop - phTerm (inp\<lparr>ph := p\<rparr>) crop
     = rawScore inp crop - phTerm inp crop"
proof -
  have "tempTerm (inp\<lparr>ph := p\<rparr>) crop = tempTerm inp crop"
    by (simp add: tempTerm_def Let_def)
  moreover have "rainTerm (inp\<lparr>ph := p\<rparr>) crop = rainTerm inp crop"
    by (simp add: rainTerm_def Let_def)
  moreover have "seasonTerm (inp\<lparr>ph := p\<rparr>) crop = seasonTerm inp crop"
    by (simp add: seasonTerm_def)
  moreover have "soilTerm (inp\<lparr>ph := p\<rparr>) = soilTerm inp"
    by (simp add: soilTerm_def)
  moreover have "prefBonus (inp\<lparr>ph := p\<rparr>) crop = prefBonus inp crop"
    by (simp add: prefBonus_def)
  ultimately show ?thesis by (simp add: rawScore_def)
qed

section \<open>The scorer on the initial form\<close>

lemma soilTerm_initial: "soilTerm initialInputs = 0.05"
  by (simp add: soilTerm_def initialInputs_def toLowerCase_def lowerChar_def)

lemma raw_initial:
  "rawScore initialInputs wheat = 0.64"
  "rawScore initialInputs rice = 0.79"
  "rawScore initialInputs maize = 0.79"
  "rawScore initialInputs cotton = 0.73"
  "rawScore initialInputs mustard = 0.59"
  "rawScore initialInputs pulses = 0.82"
  by (simp_all add: rawScore_def soilTerm_initial)
     (simp_all add: term_defs initialInputs_def crop_defs)

text \<open>Pulses come first; rice and maize tie at 0.79 and stay in the order of the table.\<close>

lemma recs_initial:
  "computeRecommendations initialInputs =
     [scoreCrop initialInputs pulses, scoreCrop initialInputs rice, scoreCrop initialInputs maize]"
  by (simp add: computeRecommendations_def rankCrops_def cropBank_def score_scoreCrop raw_initial)

lemma soilTerm_maize: "soilTerm maizeInputs = 0.05"
  by (simp add: soilTerm_def maizeInputs_def initialInputs_def toLowerCase_def lowerChar_def)

lemma raw_maize: "rawScore maizeInputs maize = 1.03"
  by (simp add: rawScore_def soilTerm_maize)
     (simp add: term_defs maizeInputs_def initialInputs_def maize_def)

section \<open>The order of the ranking\<close>

lemma tablePos_cropBank: "map (\<lambda>c. tablePos (name c)) cropBank = [0, 1, 2, 3, 4, 5]"
  by (simp add: tablePos_def cropBank_def crop_defs)

lemma cropBank_in_order:
  "sorted_wrt (\<lambda>a b. tablePos (name a) < tablePos (name b)) (map (scoreCrop inp) cropBank)"
proof -
  have "sorted_wrt (\<lambda>a b. a < b) (map (\<lambda>c. tablePos (name c)) cropBank)"
    by (simp add: tablePos_cropBank)
  then show ?thesis
    by (simp add: sorted_wrt_map name_scoreCrop)
qed

lemma ranked_precedes:
  "sorted_wrt (precedes score (\<lambda>r. tablePos (name r))) (computeRecommendations inp)"
  unfolding computeRecommendations_def rankCrops_def
  by (intro sorted_wrt_take precedes_sortBy cropBank_in_order)

lemma crop_names:
  "name wheat = ''Wheat''" "name rice = ''Rice''" "name maize = ''Maize''"
  "name cotton = ''Cotton''" "name mustard = ''Mustard''" "name pulses = ''Pulses''"
  by (simp_all add: crop_defs)

lemma tablePos_rice_maize: "tablePos ''Rice'' = 1 \<and> tablePos ''Maize'' = 2"
  by (simp add: tablePos_def cropBank_def crop_defs)

section \<open>What the score depends on\<close>

lemma low_water_crops:
  assumes "crop \<in> set cropBank" and "water crop = ''Low''"
  shows "crop = mustard \<or> crop = pulses"
proof -
  have "water wheat \<noteq> ''Low''" "water rice \<noteq> ''Low''" "water maize \<noteq> ''Low''" "water cotton \<noteq> ''Low''"
    by (simp_all add: crop_defs)
  with assms show ?thesis by (auto simp: cropBank_def)
qed

lemma rawScore_preference:
  "rawScore (inp\<lparr>preference := p\<rparr>) crop
     = rawScore inp crop - prefBonus inp crop + prefBonus (inp\<lparr>preference := p\<rparr>) crop"
proof -
  have "phTerm (inp\<lparr>preference := p\<rparr>) crop = phTerm inp crop"
    by (simp add: phTerm_def Let_def)
  moreover have "tempTerm (inp\<lparr>preference := p\<rparr>) crop = tempTerm inp crop"
    by (simp add: tempTerm_def Let_def)
  moreover have "rainTerm (inp\<lparr>preference := p\<rparr>) crop = rainTerm inp crop"
    by (simp add: rainTerm_def Let_def)
  moreover have "seasonTerm (inp\<lparr>preference := p\<rparr>) crop = seasonTerm inp crop"
    by (simp add: seasonTerm_def)
  moreover have "soilTerm (inp\<lparr>preference := p\<rparr>) = soilTerm inp"
    by (simp add: soilTerm_def)
  ultimately show ?thesis by (simp add: rawScore_def)
qed

lemma prefBonus_low_water:
  "water crop = ''Low'' \<Longrightarrow> prefBonus (inp\<lparr>preference := ''Low water''\<rparr>) crop = 0.08"
  by (simp add: prefBonus_def)

lemma prefBonus_mustard: "p \<noteq> ''Low water'' \<Longrightarrow> prefBonus (inp\<lparr>preference := p\<rparr>) mustard = 0"
  by (simp add: prefBonus_def mustard_def)

lemma prefBonus_pulses:
  "p \<noteq> ''Low water'' \<Longrightarrow> p \<noteq> ''Short duration'' \<Longrightarrow> prefBonus (inp\<lparr>preference := p\<rparr>) pulses = 0"
  by (simp add: prefBonus_def pulses_def)

lemma rawScore_area: "rawScore (inp\<lparr>area := a\<rparr>) crop = rawScore inp crop"
proof -
  have "phTerm (inp\<lparr>area := a\<rparr>) crop = phTerm inp crop"
    by (simp add: phTerm_def Let_def)
  moreover have "tempTerm (inp\<lparr>area := a\<rparr>) crop = tempTerm inp crop"
    by (simp add: tempTerm_def Let_def)
  moreover have "rainTerm (inp\<lparr>area := a\<rparr>) crop = rainTerm inp crop"
    by (simp add: rainTerm_def Let_def)
  moreover have "seasonTerm (inp\<lparr>area := a\<rparr>) crop = seasonTerm inp crop"
    by (simp add: seasonTerm_def)
  moreover have "soilTerm (inp\<lparr>area := a\<rparr>) = soilTerm inp"
    by (simp add: soilTerm_def)
  moreover have "prefBonus (inp\<lparr>area := a\<rparr>) crop = prefBonus inp crop"
    by (simp add: prefBonus_def)
  ultimately show ?thesis by (simp add: rawScore_def)
qed

lemma expectedYield_zero_area:
  "area inp = 0 \<Longrightarrow> expectedYield (scoreCrop inp crop) = 0"
  by (simp add: scoreCrop_def Let_def Math_round_def)

lemma facts_scoreCrop_area:
  "facts (scoreCrop (inp\<lparr>area := a\<rparr>) crop) = facts (scoreCrop inp crop)"
  by (simp add: facts_def scoreCrop_def Let_def rawScore_area)

lemma facts_sortBy:
  "map facts (sortBy (\<lambda>a b. score b - score a) xs)
     = sortBy (\<lambda>a b. fst (snd b) - fst (snd a)) (map facts xs)"
  by (rule map_sortBy) (simp add: facts_def)

lemma facts_rankCrops:
  "map facts (rankCrops bank inp)
     = take 3 (sortBy (\<lambda>a b. fst (snd b) - fst (snd a)) (map facts (map (scoreCrop inp) bank)))"
  by (simp only: rankCrops_def take_map [symmetric] facts_sortBy)

lemma facts_rankCrops_area:
  "map facts (rankCrops bank (inp\<lparr>area := a\<rparr>)) = map facts (rankCrops bank inp)"
proof -
  have "map facts (map (scoreCrop (inp\<lparr>area := a\<rparr>)) bank) = map facts (map (scoreCrop inp) bank)"
    by (simp add: facts_scoreCrop_area)
  then show ?thesis
    by (simp only: facts_rankCrops)
qed

lemma recs_zero_area:
  "computeRecommendations (initialInputs\<lparr>area := 0\<rparr>) =
     [scoreCrop (initialInputs\<lparr>area := 0\<rparr>) pulses,
      scoreCrop (initialInputs\<lparr>area := 0\<rparr>) rice,
      scoreCrop (initialInputs\<lparr>area := 0\<rparr>) maize]"
  by (simp add: computeRecommendations_def rankCrops_def cropBank_def score_scoreCrop
      rawScore_area raw_initial)

section \<open>The claims\<close>

text \<open>
  Claim C1. Whatever the inputs, the reported \<open>score\<close> of every crop of the
  reference table, and so of every entry that \<open>computeRecommendations\<close> returns, lies
  between 0 and 1: the code clamps from above, and every term of the sum is at least 0.
\<close>

theorem score_clamped:
  "(\<forall>c\<in>set cropBank. 0 \<le> score (scoreCrop inp c) \<and> score (scoreCrop inp c) \<le> 1) \<and>
   (\<forall>r\<in>set (computeRecommendations inp). 0 \<le> score r \<and> score r \<le> 1)"
proof -
  have "0 \<le> score r \<and> score r \<le> 1" if "r \<in> set (computeRecommendations inp)" for r
  proof -
    from that set_rankCrops [of cropBank inp] obtain c where "r = scoreCrop inp c"
      unfolding computeRecommendations_def by blast
    then show ?thesis by (simp add: scoreCrop_unit)
  qed
  then show ?thesis by (simp add: scoreCrop_unit)
qed

theorem score_clamped_witness:
  "pulses \<in> set cropBank \<and>
   scoreCrop initialInputs pulses \<in> set (computeRecommendations initialInputs) \<and>
   score (scoreCrop initialInputs pulses) = 0.82 \<and>
   0 \<le> score (scoreCrop initialInputs pulses) \<and> score (scoreCrop initialInputs pulses) \<le> 1"
  using score_clamped [of initialInputs]
  by (simp add: recs_initial cropBank_def score_scoreCrop raw_initial)

text \<open>
  Claim C3. \<open>computeRecommendations\<close> returns min(3, size of the table) entries, which
  for the table of six crops is 3.
\<close>

theorem result_length:
  "length (rankCrops bank inp) = min 3 (length bank) \<and> length cropBank = 6 \<and>
   length (computeRecommendations inp) = 3"
proof -
  have "length (rankCrops b inp) = min 3 (length b)" for b
    by (simp add: rankCrops_def length_sortBy)
  moreover have "length cropBank = 6"
    by (simp add: cropBank_def)
  ultimately show ?thesis
    by (simp add: computeRecommendations_def)
qed

text \<open>
  Claim C4. The pH term is the full weight 0.28 when the pH lies in the crop's ideal
  range, both ends included, and max(0, 0.28 - |midpoint - pH| / 10) otherwise. At
  either end of a range that is not empty it is 0.28. It is the only part of the raw
  score that the pH changes.
\<close>

theorem phTerm_value:
  "(let lo = fst (idealPh (ideal crop)); hi = snd (idealPh (ideal crop)) in
     (lo \<le> ph inp \<and> ph inp \<le> hi \<longrightarrow> phTerm inp crop = 0.28) \<and>
     (\<not> (lo \<le> ph inp \<and> ph inp \<le> hi) \<longrightarrow>
        phTerm inp crop = max 0 (0.28 - \<bar>(lo + hi) / 2 - ph inp\<bar> / 10)) \<and>
     (lo \<le> hi \<longrightarrow> phTerm (inp\<lparr>ph := lo\<rparr>) crop = 0.28 \<and> phTerm (inp\<lparr>ph := hi\<rparr>) crop = 0.28) \<and>
     rawScore (inp\<lparr>ph := p\<rparr>) crop - phTerm (inp\<lparr>ph := p\<rparr>) crop
       = rawScore inp crop - phTerm inp crop)"
  unfolding Let_def
proof (intro conjI impI)
  show "rawScore (inp\<lparr>ph := p\<rparr>) crop - phTerm (inp\<lparr>ph := p\<rparr>) crop
      = rawScore inp crop - phTerm inp crop"
    by (rule rest_without_ph)
next
  assume "fst (idealPh (ideal crop)) \<le> ph inp \<and> ph inp \<le> snd (idealPh (ideal crop))"
  then show "phTerm inp crop = 0.28"
    by (simp add: phTerm_unfold)
next
  assume "\<not> (fst (idealPh (ideal crop)) \<le> ph inp \<and> ph inp \<le> snd (idealPh (ideal crop)))"
  then show "phTerm inp crop =
    max 0 (0.28 - \<bar>(fst (idealPh (ideal crop)) + snd (idealPh (ideal crop))) / 2 - ph inp\<bar> / 10)"
    by (simp only: phTerm_unfold if_False)
next
  assume "fst (idealPh (ideal crop)) \<le> snd (idealPh (ideal crop))"
  then show "phTerm (inp\<lparr>ph := fst (idealPh (ideal crop))\<rparr>) crop = 0.28"
    by (simp add: phTerm_unfold)
next
  assume "fst (idealPh (ideal crop)) \<le> snd (idealPh (ideal crop))"
  then show "phTerm (inp\<lparr>ph := snd (idealPh (ideal crop))\<rparr>) crop = 0.28"
    by (simp add: phTerm_unfold)
qed

theorem phTerm_value_witness:
  "fst (idealPh (ideal wheat)) \<le> snd (idealPh (ideal wheat)) \<and>
   phTerm (initialInputs\<lparr>ph := 6\<rparr>) wheat = 0.28 \<and>
   phTerm (initialInputs\<lparr>ph := 7.5\<rparr>) wheat = 0.28 \<and>
   phTerm initialInputs wheat = 0.28 \<and>
   \<not> (6 \<le> ph (initialInputs\<lparr>ph := 9\<rparr>) \<and> ph (initialInputs\<lparr>ph := 9\<rparr>) \<le> 7.5) \<and>
   phTerm (initialInputs\<lparr>ph := 9\<rparr>) wheat = 0.055"
  using phTerm_value [of wheat initialInputs] phTerm_value [of wheat "initialInputs\<lparr>ph := 9\<rparr>"]
  by (simp add: Let_def wheat_def initialInputs_def)

text \<open>
  Claim C5. \<open>prefBonus\<close> is the first matching rule of the four, in the order low
  water, high yield, short duration, market demand, and 0 when none matches.
\<close>

theorem prefBonus_first_match:
  "prefBonus inp crop = prefBonus_spec (preference inp) crop"
  by (simp add: prefBonus_def prefBonus_spec_def prefRules_def)

text \<open>
  Claim C2. The entries returned are in descending order of \<open>score\<close>, and two
  entries with the same score stand in the order of their crops in the reference table.
\<close>

theorem ranking_descending_stable:
  "sorted_wrt (\<lambda>a b. score a \<ge> score b) (computeRecommendations inp) \<and>
   sorted_wrt (\<lambda>a b. score a = score b \<longrightarrow> tablePos (name a) < tablePos (name b))
     (computeRecommendations inp)"
proof
  show "sorted_wrt (\<lambda>a b. score a \<ge> score b) (computeRecommendations inp)"
    by (rule sorted_wrt_mono_rel [OF _ ranked_precedes]) (auto simp: precedes_def)
  show "sorted_wrt (\<lambda>a b. score a = score b \<longrightarrow> tablePos (name a) < tablePos (name b))
     (computeRecommendations inp)"
    by (rule sorted_wrt_mono_rel [OF _ ranked_precedes]) (auto simp: precedes_def)
qed

theorem ranking_descending_stable_witness:
  "map name (computeRecommendations initialInputs) = [''Pulses'', ''Rice'', ''Maize''] \<and>
   map score (computeRecommendations initialInputs) = [0.82, 0.79, 0.79] \<and>
   score (computeRecommendations initialInputs ! 1) = score (computeRecommendations initialInputs ! 2) \<and>
   tablePos (name (computeRecommendations initialInputs ! 1))
     < tablePos (name (computeRecommendations initialInputs ! 2))"
  using ranking_descending_stable [of initialInputs]
  by (simp add: recs_initial score_scoreCrop raw_initial name_scoreCrop crop_names tablePos_rice_maize)

text \<open>
  Claim C7, as stated: the yield per hectare never exceeds the base yield raised by 40
  percent and rounded. It fails for maize on the initial form with 600 mm of rain: the
  raw score is 1.03 and the yield 7.8, above 7.7.
\<close>

theorem uplift_counterexample:
  "\<not> expectedYieldValue (scoreCrop maizeInputs maize) \<le> round1 (baseYield maize * 1.4)"
  by (simp add: yph_scoreCrop raw_maize) (simp add: maize_def round1_def round_def)

text \<open>
  Claim C7, amended. For a crop whose base yield is not negative, the yield per hectare
  is at most the base yield raised by 42 percent and rounded to one decimal place (the
  raw score is at most 1.05); it is at most the base yield raised by 40 percent and
  rounded whenever the raw score is at most 1.
\<close>

theorem uplift_bound:
  assumes "0 \<le> baseYield crop"
  shows "expectedYieldValue (scoreCrop inp crop) \<le> round1 (baseYield crop * 1.42) \<and>
    (rawScore inp crop \<le> 1 \<longrightarrow>
       expectedYieldValue (scoreCrop inp crop) \<le> round1 (baseYield crop * 1.4))"
proof
  have "1 + rawScore inp crop * 0.4 \<le> 1.42"
    using rawScore_bounds [of inp crop] by simp
  then have "baseYield crop * (1 + rawScore inp crop * 0.4) \<le> baseYield crop * 1.42"
    using assms by (rule mult_left_mono)
  then show "expectedYieldValue (scoreCrop inp crop) \<le> round1 (baseYield crop * 1.42)"
    unfolding yph_scoreCrop by (rule round1_mono)
next
  show "rawScore inp crop \<le> 1 \<longrightarrow>
       expectedYieldValue (scoreCrop inp crop) \<le> round1 (baseYield crop * 1.4)"
  proof
    assume "rawScore inp crop \<le> 1"
    then have "1 + rawScore inp crop * 0.4 \<le> 1.4" by simp
    then have "baseYield crop * (1 + rawScore inp crop * 0.4) \<le> baseYield crop * 1.4"
      using assms by (rule mult_left_mono)
    then show "expectedYieldValue (scoreCrop inp crop) \<le> round1 (baseYield crop * 1.4)"
      unfolding yph_scoreCrop by (rule round1_mono)
  qed
qed

theorem uplift_bound_witness:
  "0 \<le> baseYield maize \<and> rawScore initialInputs maize \<le> 1 \<and>
   expectedYieldValue (scoreCrop initialInputs maize) = 7.2 \<and>
   expectedYieldValue (scoreCrop initialInputs maize) \<le> round1 (baseYield maize * 1.4) \<and>
   expectedYieldValue (scoreCrop maizeInputs maize) = 7.8 \<and>
   expectedYieldValue (scoreCrop maizeInputs maize) \<le> round1 (baseYield maize * 1.42)"
  using uplift_bound [of maize initialInputs] uplift_bound [of maize maizeInputs]
  by (simp add: yph_scoreCrop raw_initial raw_maize) (simp add: maize_def round1_def round_def)

text \<open>
  Claim C8, as stated: with the preference "Low water" a crop whose water need is low
  scores 0.08 more than with any other preference. It fails for pulses against the
  preference "Short duration", which earns pulses 0.06: the difference is 0.02.
\<close>

theorem low_water_counterexample:
  "water pulses = ''Low'' \<and>
   rawScore (initialInputs\<lparr>preference := ''Low water''\<rparr>) pulses
     \<noteq> rawScore (initialInputs\<lparr>preference := ''Short duration''\<rparr>) pulses + 0.08"
proof -
  have "prefBonus (initialInputs\<lparr>preference := ''Low water''\<rparr>) pulses = 0.08"
    by (simp add: prefBonus_def pulses_def)
  moreover have "prefBonus (initialInputs\<lparr>preference := ''Short duration''\<rparr>) pulses = 0.06"
    by (simp add: prefBonus_def pulses_def)
  moreover have "water pulses = ''Low''" by (simp add: pulses_def)
  ultimately show ?thesis
    by (simp add: rawScore_preference [where inp = initialInputs])
qed

text \<open>
  Claim C8, amended. For a crop of the table whose water need is low (mustard, pulses),
  the raw score with the preference "Low water" is 0.08 more than the raw score of the
  same inputs with another preference, except for pulses against "Short duration".
\<close>

theorem low_water_bonus:
  assumes "crop \<in> set cropBank" and "water crop = ''Low''"
    and "p \<noteq> ''Low water''" and "\<not> (p = ''Short duration'' \<and> name crop = ''Pulses'')"
  shows "rawScore (inp\<lparr>preference := ''Low water''\<rparr>) crop
     = rawScore (inp\<lparr>preference := p\<rparr>) crop + 0.08"
proof -
  have "prefBonus (inp\<lparr>preference := p\<rparr>) crop = 0"
  proof -
    from low_water_crops [OF assms(1,2)] show ?thesis
    proof
      assume "crop = mustard"
      then show ?thesis using assms(3) by (simp add: prefBonus_mustard)
    next
      assume c: "crop = pulses"
      then have "p \<noteq> ''Short duration''" using assms(4) by (auto simp: crop_names)
      then show ?thesis using c assms(3) by (simp add: prefBonus_pulses)
    qed
  qed
  moreover have "prefBonus (inp\<lparr>preference := ''Low water''\<rparr>) crop = 0.08"
    using assms(2) by (rule prefBonus_low_water)
  ultimately show ?thesis
    by (simp add: rawScore_preference [where inp = inp])
qed

theorem low_water_bonus_witness:
  "pulses \<in> set cropBank \<and> water pulses = ''Low'' \<and> ''High yield'' \<noteq> ''Low water'' \<and>
   \<not> (''High yield'' = ''Short duration'' \<and> name pulses = ''Pulses'') \<and>
   rawScore (initialInputs\<lparr>preference := ''High yield''\<rparr>) pulses = 0.82 \<and>
   rawScore (initialInputs\<lparr>preference := ''Low water''\<rparr>) pulses = 0.9"
proof -
  have a: "pulses \<in> set cropBank" by (simp add: cropBank_def)
  have b: "water pulses = ''Low''" by (simp add: pulses_def)
  have c: "''High yield'' \<noteq> ''Low water''" by simp
  have d: "\<not> (''High yield'' = ''Short duration'' \<and> name pulses = ''Pulses'')" by simp
  have e: "initialInputs\<lparr>preference := ''High yield''\<rparr> = initialInputs"
    by (simp add: initialInputs_def)
  show ?thesis
    using low_water_bonus [OF a b c d, where inp = initialInputs] a b
    by (simp add: e raw_initial)
qed

text \<open>
  Claim C10. With an area of 0 every entry returned has a total yield of 0. The area
  changes nothing else: the crops returned, their order, their scores and their yields
  per hectare are those of any other area.
\<close>

theorem zero_area:
  "(area inp = 0 \<longrightarrow> (\<forall>r\<in>set (computeRecommendations inp). expectedYield r = 0)) \<and>
   map facts (computeRecommendations (inp\<lparr>area := a\<rparr>)) = map facts (computeRecommendations inp)"
proof
  show "area inp = 0 \<longrightarrow> (\<forall>r\<in>set (computeRecommendations inp). expectedYield r = 0)"
  proof (intro impI ballI)
    fix r assume z: "area inp = 0" and "r \<in> set (computeRecommendations inp)"
    with set_rankCrops [of cropBank inp] obtain c where "r = scoreCrop inp c"
      unfolding computeRecommendations_def by blast
    then show "expectedYield r = 0" using z by (simp add: expectedYield_zero_area)
  qed
  show "map facts (computeRecommendations (inp\<lparr>area := a\<rparr>)) = map facts (computeRecommendations inp)"
    unfolding computeRecommendations_def by (rule facts_rankCrops_area)
qed

theorem zero_area_witness:
  "area (initialInputs\<lparr>area := 0\<rparr>) = 0 \<and>
   scoreCrop (initialInputs\<lparr>area := 0\<rparr>) pulses
     \<in> set (computeRecommendations (initialInputs\<lparr>area := 0\<rparr>)) \<and>
   expectedYield (scoreCrop (initialInputs\<lparr>area := 0\<rparr>) pulses) = 0 \<and>
   map facts (computeRecommendations (initialInputs\<lparr>area := 0\<rparr>))
     = map facts (computeRecommendations initialInputs)"
  using zero_area [where inp = "initialInputs\<lparr>area := 0\<rparr>" and a = 0]
    zero_area [where inp = initialInputs and a = 0]
  by (simp add: recs_zero_area)

end
